theory Spec2Isabelle
  imports Complex_Main "HOL-Library.Sublist"
begin

section \<open>Strings\<close>

text \<open>
  Python strings are sequences of code points. They are modelled as \<open>string\<close>, each
  \<open>char\<close> standing for the code point of the same number (0 to 255), so \<open>length\<close>
  counts code points as Python's \<open>len\<close> does. \<open>str.isspace\<close>, \<open>str.strip\<close>,
  \<open>str.lower\<close> and the regular expression class \<open>\s\<close> are written out on that range.
\<close>

definition is_space :: "char \<Rightarrow> bool" where
  "is_space c =
     (let n = (of_char c :: nat)
      in (9 \<le> n \<and> n \<le> 13) \<or> (28 \<le> n \<and> n \<le> 32) \<or> n = 133 \<or> n = 160)"

definition lower_char :: "char \<Rightarrow> char" where
  "lower_char c =
     (let n = (of_char c :: nat)
      in if (65 \<le> n \<and> n \<le> 90) \<or> (192 \<le> n \<and> n \<le> 222 \<and> n \<noteq> 215)
         then char_of (n + 32) else c)"

definition lower :: "string \<Rightarrow> string" where
  "lower s = map lower_char s"

definition lstrip :: "string \<Rightarrow> string" where
  "lstrip s = dropWhile is_space s"

definition rstrip :: "string \<Rightarrow> string" where
  "rstrip s = rev (dropWhile is_space (rev s))"

definition strip :: "string \<Rightarrow> string" where
  "strip s = rstrip (lstrip s)"

section \<open>Settings and colors\<close>

datatype py_error = KeyError | IndexError | AttributeError | ValueError

record color =
  red :: rat
  green :: rat
  blue :: rat

text \<open>\<open>colors.HexColor("#RRGGBB")\<close>: each component is the byte divided by 255.\<close>

definition HexColor :: "nat \<Rightarrow> nat \<Rightarrow> nat \<Rightarrow> color" where
  "HexColor r g b = \<lparr>red = of_nat r / 255, green = of_nat g / 255, blue = of_nat b / 255\<rparr>"

definition white :: color where
  "white = \<lparr>red = 1, green = 1, blue = 1\<rparr>"

definition black :: color where
  "black = \<lparr>red = 0, green = 0, blue = 0\<rparr>"

definition NB_CARTES :: nat where
  "NB_CARTES = 10"

definition COLS :: nat where
  "COLS = 2"

definition ROWS :: nat where
  "ROWS = 5"

definition COLOR_MAP :: "(string \<times> color) list" where
  "COLOR_MAP =
     [(''bleu'', HexColor 0x2D 0x6C 0xDF),
      (''rouge'', HexColor 0xD6 0x45 0x41),
      (''rose'', HexColor 0xE8 0x5D 0x9E),
      (''vert'', HexColor 0x2E 0xCC 0x71),
      (''jaune'', HexColor 0xF1 0xC4 0x0F)]"

text \<open>\<open>COLOR_MAP[key]\<close> raises \<open>KeyError\<close> on a missing key.\<close>

definition COLOR_MAP_item :: "string \<Rightarrow> py_error + color" where
  "COLOR_MAP_item key = (case map_of COLOR_MAP key of None \<Rightarrow> Inl KeyError | Some c \<Rightarrow> Inr c)"

definition color_names :: "string list" where
  "color_names = [''bleu'', ''rouge'', ''rose'', ''vert'', ''jaune'']"

text \<open>
  The loop of \<open>pick_color_from_filename\<close> over the literal list of keys; \<open>key in low\<close>
  is the contiguous-substring test \<open>sublist key low\<close>.
\<close>

fun pick_loop :: "string list \<Rightarrow> string \<Rightarrow> py_error + (string \<times> color)" where
  "pick_loop [] low =
     (case COLOR_MAP_item ''bleu'' of Inl e \<Rightarrow> Inl e | Inr c \<Rightarrow> Inr (''bleu'', c))"
| "pick_loop (key # keys) low =
     (if sublist key low
      then (case COLOR_MAP_item key of Inl e \<Rightarrow> Inl e | Inr c \<Rightarrow> Inr (key, c))
      else pick_loop keys low)"

definition pick_color_from_filename :: "string \<Rightarrow> py_error + (string \<times> color)" where
  "pick_color_from_filename filename = pick_loop color_names (lower filename)"

text \<open>
  \<open>is_dark\<close>. The components and the luminance are Python floats in the source; here they
  are exact rationals, so the rounding of each product and sum is not modelled. The
  comparison itself is the source's strict \<open><\<close>.
\<close>

definition luminance :: "color \<Rightarrow> rat" where
  "luminance c = 2126 / 10000 * red c + 7152 / 10000 * green c + 722 / 10000 * blue c"

definition is_dark :: "color \<Rightarrow> bool" where
  "is_dark c = (luminance c < 55 / 100)"

text \<open>The \<open>textColor\<close> of \<open>style_recto\<close> in \<open>build_pdf\<close>.\<close>

definition recto_text_color :: "color \<Rightarrow> color" where
  "recto_text_color current_back_color =
     (if is_dark current_back_color then white else black)"


section \<open>Regular expressions of the color tag\<close>

text \<open>
  The two patterns of \<open>read_cards_from_csv\<close> are
  \<^verbatim>\<open>\(([^)]+)\)\s*$\<close> and \<^verbatim>\<open>\s*\(([^)]+)\)\s*$\<close>.
  They are sequences of the tokens below, matched as Python's backtracking matcher does:
  a starred or plussed class is greedy and gives characters back one at a time,
  \<open>$\<close> (no MULTILINE flag) holds at the end of the text and just before a final newline,
  \<open>re.search\<close> tries the start positions from left to right. A literal is compared
  under \<open>re.IGNORECASE\<close>.
\<close>

datatype cls = Space | NotRParen

datatype tok = Lit char | Star cls | Plus cls | GroupOpen | GroupClose | EndAnchor

definition in_cls :: "cls \<Rightarrow> char \<Rightarrow> bool" where
  "in_cls k c = (case k of Space \<Rightarrow> is_space c | NotRParen \<Rightarrow> c \<noteq> CHR '')'')"

definition group_text :: "string option \<Rightarrow> string option \<Rightarrow> string option" where
  "group_text go gc =
     (case go of None \<Rightarrow> None
      | Some a \<Rightarrow> (case gc of None \<Rightarrow> None
                   | Some b \<Rightarrow> Some (take (length a - length b) a)))"

text \<open>
  \<open>re_match ts s go gc\<close> matches the tokens \<open>ts\<close> at the start of \<open>s\<close>; \<open>go\<close> and
  \<open>gc\<close> are the remaining text where group 1 opened and closed. The result is the
  text left after the match and the text of group 1.
\<close>

fun re_match :: "tok list \<Rightarrow> string \<Rightarrow> string option \<Rightarrow> string option
    \<Rightarrow> (string \<times> string option) option" where
  "re_match [] s go gc = Some (s, group_text go gc)"
| "re_match (Lit c # ts) [] go gc = None"
| "re_match (Lit c # ts) (x # xs) go gc =
     (if lower_char x = lower_char c then re_match ts xs go gc else None)"
| "re_match (EndAnchor # ts) s go gc =
     (if s = [] \<or> s = [CHR 0x0A] then re_match ts s go gc else None)"
| "re_match (GroupOpen # ts) s go gc = re_match ts s (Some s) gc"
| "re_match (GroupClose # ts) s go gc = re_match ts s go (Some s)"
| "re_match (Star k # ts) [] go gc = re_match ts [] go gc"
| "re_match (Star k # ts) (x # xs) go gc =
     (if in_cls k x
      then (case re_match (Star k # ts) xs go gc of
              Some r \<Rightarrow> Some r
            | None \<Rightarrow> re_match ts (x # xs) go gc)
      else re_match ts (x # xs) go gc)"
| "re_match (Plus k # ts) [] go gc = None"
| "re_match (Plus k # ts) (x # xs) go gc =
     (if in_cls k x then re_match (Star k # ts) xs go gc else None)"

fun re_search :: "tok list \<Rightarrow> string \<Rightarrow> (string \<times> string option) option" where
  "re_search ts [] = re_match ts [] None None"
| "re_search ts (x # xs) =
     (case re_match ts (x # xs) None None of
        Some r \<Rightarrow> Some r
      | None \<Rightarrow> re_search ts xs)"

text \<open>
  \<open>re.sub(pattern, '', s)\<close>: every match, found from left to right, is deleted; the
  search goes on after a match, and a match of no character deletes nothing.
\<close>

fun re_sub_empty :: "tok list \<Rightarrow> string \<Rightarrow> string" where
  "re_sub_empty ts [] = []"
| "re_sub_empty ts (x # xs) =
     (case re_match ts (x # xs) None None of
        None \<Rightarrow> x # re_sub_empty ts xs
      | Some r \<Rightarrow>
          (if length (fst r) < length (x # xs) then re_sub_empty ts (fst r)
           else x # re_sub_empty ts xs))"

definition color_search_pattern :: "tok list" where
  "color_search_pattern =
     [Lit (CHR ''(''), GroupOpen, Plus NotRParen, GroupClose, Lit (CHR '')''),
      Star Space, EndAnchor]"

definition color_sub_pattern :: "tok list" where
  "color_sub_pattern =
     [Star Space, Lit (CHR ''(''), GroupOpen, Plus NotRParen, GroupClose, Lit (CHR '')''),
      Star Space, EndAnchor]"

section \<open>Reading the cards\<close>

text \<open>
  A card is the dict that \<open>read_cards_from_csv\<close> appends: its items in insertion order,
  a value being a string or Python's \<open>None\<close>.
\<close>

type_synonym card = "(string \<times> string option) list"

text \<open>
  The lines 98 to 104 of the source, which both branches of \<open>read_cards_from_csv\<close>
  repeat: the result is \<open>(card_color_key, question_text)\<close>. \<open>match.group(1)\<close> of a
  group that took no part in the match is \<open>None\<close>, on which \<open>.lower()\<close> raises.
\<close>

definition extract_color :: "string \<Rightarrow> py_error + (string option \<times> string)" where
  "extract_color q_raw =
     (case re_search color_search_pattern q_raw of
        None \<Rightarrow> Inr (None, q_raw)
      | Some m \<Rightarrow>
          (case snd m of
             None \<Rightarrow> Inl AttributeError
           | Some g \<Rightarrow>
               (let extracted_color_name = strip (lower g)
                in if extracted_color_name \<in> set (map fst COLOR_MAP)
                   then Inr (Some extracted_color_name,
                             strip (re_sub_empty color_sub_pattern q_raw))
                   else Inr (None, q_raw))))"

text \<open>\<open>re.sub(r"\s+", "", t)\<close> deletes every run of whitespace, that is every whitespace character.\<close>

definition normalize_header :: "string \<Rightarrow> string" where
  "normalize_header h = filter (\<lambda>c. \<not> is_space c) (lower (strip h))"

definition header_words :: "string list" where
  "header_words =
     [''question'', ''q'', ''texte'', ''text'', ''reponse'',
      [CHR ''r'', CHR 0xE9, CHR ''p'', CHR ''o'', CHR ''n'', CHR ''s'', CHR ''e''],
      ''answer'', ''reponseverso'', ''verso'']"

definition has_header :: "string list \<Rightarrow> bool" where
  "has_header norm_first = list_ex (\<lambda>x. x \<in> set header_words) norm_first"

text \<open>
  A Python dict as the list of its items in insertion order: storing under a key that is
  present replaces the value where the key stands, a new key goes to the end.
\<close>

fun dict_set :: "('k \<times> 'v) list \<Rightarrow> 'k \<Rightarrow> 'v \<Rightarrow> ('k \<times> 'v) list" where
  "dict_set [] k v = [(k, v)]"
| "dict_set ((k', v') # d) k v =
     (if k' = k then (k, v) # d else (k', v') # dict_set d k v)"

text \<open>The cell \<open>r[i].strip() if i < len(r) else ""\<close>.\<close>

definition row_cell :: "string list \<Rightarrow> nat \<Rightarrow> string" where
  "row_cell r i = (if i < length r then strip (r ! i) else [])"

text \<open>The dict comprehension \<open>d\<close> of the headered branch, over \<open>range(len(headers))\<close>.\<close>

definition row_dict :: "string list \<Rightarrow> string list \<Rightarrow> (string \<times> string) list" where
  "row_dict headers r =
     fold (\<lambda>i d. dict_set d (headers ! i) (row_cell r i)) [0..<length headers] []"

fun get_field_items :: "(string \<times> string) list \<Rightarrow> string \<Rightarrow> string option" where
  "get_field_items [] nk = None"
| "get_field_items ((kk, vv) # d) nk =
     (if normalize_header kk = nk then Some (strip vv) else get_field_items d nk)"

fun get_field :: "(string \<times> string) list \<Rightarrow> string list \<Rightarrow> string \<Rightarrow> string" where
  "get_field d [] fallback = fallback"
| "get_field d (k # keys) fallback =
     (case get_field_items d (normalize_header k) of
        Some v \<Rightarrow> v
      | None \<Rightarrow> get_field d keys fallback)"

definition question_keys :: "string list" where
  "question_keys = [''question'', ''q'']"

definition texte_keys :: "string list" where
  "texte_keys =
     [''texte'', ''text'', ''reponse'',
      [CHR ''r'', CHR 0xE9, CHR ''p'', CHR ''o'', CHR ''n'', CHR ''s'', CHR ''e''],
      ''answer'', ''verso'', ''reponseverso'']"

definition make_card :: "string \<Rightarrow> string \<Rightarrow> string option \<Rightarrow> card" where
  "make_card question_text txt card_color_key =
     [(''question'', Some question_text), (''texte'', Some txt),
      (''card_color_key'', card_color_key)]"

text \<open>\<open>not any(str(x).strip() for x in r)\<close>: the row is skipped.\<close>

definition blank_row :: "string list \<Rightarrow> bool" where
  "blank_row r = (\<not> list_ex (\<lambda>x. strip x \<noteq> []) r)"

definition headered_card :: "string list \<Rightarrow> string list \<Rightarrow> py_error + card" where
  "headered_card headers r =
     (let d = row_dict headers r;
          q_raw = get_field d question_keys []
      in case extract_color q_raw of
           Inl e \<Rightarrow> Inl e
         | Inr kq \<Rightarrow>
             (let txt = get_field d texte_keys []
              in Inr (make_card (snd kq) txt (fst kq))))"

definition headerless_card :: "string list \<Rightarrow> py_error + card" where
  "headerless_card r =
     (let q_raw = (if length r > 0 then strip (r ! 0) else [])
      in case extract_color q_raw of
           Inl e \<Rightarrow> Inl e
         | Inr kq \<Rightarrow>
             (let txt = (if length r > 1 then strip (r ! 1) else []);
                  txt = (if txt = [] \<and> length r > 2 then strip (r ! 2) else txt)
              in Inr (make_card (snd kq) txt (fst kq))))"

text \<open>The two \<open>for\<close> loops over the rows, \<open>out\<close> being the cards appended so far.\<close>

fun cards_loop :: "(string list \<Rightarrow> py_error + card) \<Rightarrow> string list list \<Rightarrow> card list
    \<Rightarrow> py_error + card list" where
  "cards_loop f [] out = Inr out"
| "cards_loop f (r # rows) out =
     (if blank_row r then cards_loop f rows out
      else (case f r of
              Inl e \<Rightarrow> Inl e
            | Inr c \<Rightarrow> cards_loop f rows (out @ [c])))"

text \<open>
  \<open>read_cards_from_csv\<close> from the point where \<open>rows = list(reader)\<close> is known; the
  dialect sniffing and \<open>csv.reader\<close> belong to the standard library.
\<close>

definition read_cards_from_rows :: "string list list \<Rightarrow> py_error + card list" where
  "read_cards_from_rows rows =
     (case rows of
        [] \<Rightarrow> Inr []
      | first # rest \<Rightarrow>
          (let norm_first = map normalize_header first
           in if has_header norm_first
              then cards_loop (headered_card norm_first) rest []
              else cards_loop headerless_card rows []))"

section \<open>Page grid\<close>

text \<open>
  Lengths are Python floats in the source. They are exact rationals here: the
  rounding of the float operations is not modelled. \<open>cm\<close> and \<open>A4\<close> are reportlab's
  (\<open>inch = 72.0\<close>, \<open>cm = inch / 2.54\<close>, \<open>mm = cm * 0.1\<close>, \<open>A4 = (210*mm, 297*mm)\<close>).
\<close>

definition cm :: rat where
  "cm = 72 / (254 / 100)"

definition A4 :: "rat \<times> rat" where
  "A4 = (210 * (cm * (1 / 10)), 297 * (cm * (1 / 10)))"

definition MARGIN :: rat where
  "MARGIN = 1 * cm"

definition GAP :: rat where
  "GAP = 35 / 100 * cm"

definition BORDER_WIDTH :: rat where
  "BORDER_WIDTH = 1"

definition ELEMENT_SPACING :: rat where
  "ELEMENT_SPACING = 8 / 10 * cm"

definition lightgrey :: color where
  "lightgrey = HexColor 0xD3 0xD3 0xD3"

record Grid =
  page_w :: rat
  page_h :: rat
  card_w :: rat
  card_h :: rat
  x0 :: rat
  y0 :: rat

definition compute_grid :: Grid where
  "compute_grid =
     (let usable_w = fst A4 - 2 * MARGIN - (of_nat COLS - 1) * GAP;
          usable_h = snd A4 - 2 * MARGIN - (of_nat ROWS - 1) * GAP
      in \<lparr>page_w = fst A4, page_h = snd A4,
          card_w = usable_w / of_nat COLS, card_h = usable_h / of_nat ROWS,
          x0 = MARGIN, y0 = MARGIN\<rparr>)"

definition card_xy :: "Grid \<Rightarrow> int \<Rightarrow> int \<Rightarrow> rat \<times> rat" where
  "card_xy grid col row =
     (let x = x0 grid + of_int col * (card_w grid + GAP);
          y_top = page_h grid - y0 grid - of_int row * (card_h grid + GAP);
          y = y_top - card_h grid
      in (x, y))"

section \<open>Drawing\<close>

record style =
  fontName :: string
  fontSize :: rat
  leading :: rat
  textColor :: color

text \<open>
  What \<open>build_pdf\<close> does to the world, in order: the calls on the canvas, the temporary
  files it creates and removes, and the messages it gives to streamlit. A temporary
  file is named by the index of the card it was made for.
\<close>

datatype event =
    SetFillColor color
  | SetLineWidth rat
  | SetStrokeColor color
  | Rect rat rat rat rat bool bool
  | DrawImage nat rat rat rat rat
  | DrawParagraph string style rat rat
  | ShowPage
  | Save
  | TempFileCreated nat
  | OsRemove nat
  | StError
  | StWarning nat

text \<open>
  The calls whose outcome the source cannot decide: whether compositing the image of
  card \<open>i\<close> raises before the temporary file exists, raises while the file is written,
  or succeeds; whether \<open>c.drawImage\<close> raises; whether reportlab accepts a paragraph's
  markup; the height reportlab measures for it; whether \<open>os.remove\<close> raises \<open>OSError\<close>.
\<close>

datatype composite_outcome = CompositeRaises | SaveRaises | Composited

record env =
  composite :: "nat \<Rightarrow> composite_outcome"
  drawImage_ok :: "nat \<Rightarrow> bool"
  paragraph_ok :: "string \<Rightarrow> bool"
  wrap_height :: "string \<Rightarrow> style \<Rightarrow> rat \<Rightarrow> rat"
  remove_ok :: "nat \<Rightarrow> bool"

datatype upload = NoUpload | Unreadable | Readable

record pdf_state =
  trace :: "event list"
  temp_image_files_to_clean :: "nat list"

definition emit :: "event list \<Rightarrow> pdf_state \<Rightarrow> pdf_state" where
  "emit es st = st\<lparr>trace := trace st @ es\<rparr>"

text \<open>\<open>draw_card_border\<close> of the source.\<close>

definition draw_card_border :: "rat \<Rightarrow> rat \<Rightarrow> rat \<Rightarrow> rat \<Rightarrow> color \<Rightarrow> pdf_state \<Rightarrow> pdf_state" where
  "draw_card_border x y w h stroke_color st =
     emit [SetLineWidth BORDER_WIDTH, SetStrokeColor stroke_color, Rect x y w h True False] st"

definition replace_newlines :: "string \<Rightarrow> string" where
  "replace_newlines text = concat (map (\<lambda>c. if c = CHR 0x0A then ''<br/>'' else [c]) text)"

text \<open>
  \<open>draw_centered_text_in_box\<close>; \<open>text\<close> is \<open>None\<close> or a string. The result is the
  exception that leaves the function, if any, and the state.
\<close>

definition draw_centered_text_in_box ::
    "env \<Rightarrow> rat \<Rightarrow> rat \<Rightarrow> rat \<Rightarrow> rat \<Rightarrow> string option \<Rightarrow> style \<Rightarrow> pdf_state
     \<Rightarrow> py_error option \<times> pdf_state" where
  "draw_centered_text_in_box e x y w h text sty st =
     (let pad = 6;
          inner_x = x + pad;
          inner_y = y + pad;
          inner_w = w - 2 * pad;
          inner_h = h - 2 * pad;
          t = (case text of None \<Rightarrow> [] | Some s \<Rightarrow> s);
          markup = (if strip t \<noteq> [] then replace_newlines t else ''&nbsp;'')
      in if \<not> paragraph_ok e markup then (Some ValueError, st)
         else (let text_height = wrap_height e markup sty inner_w;
                   text_height = (if text_height > inner_h then inner_h else text_height);
                   y_offset = (inner_h - text_height) / 2
               in (None, emit [DrawParagraph markup sty inner_x (inner_y + y_offset)] st)))"

section \<open>The deck and the two passes\<close>

definition blank_card :: card where
  "blank_card = [(''question'', Some []), (''texte'', Some [])]"

definition cards10 :: "card list \<Rightarrow> card list" where
  "cards10 cards = take NB_CARTES (take NB_CARTES cards @ replicate NB_CARTES blank_card)"

text \<open>\<open>d.get(k)\<close> and \<open>d.get(k, "")\<close> on a card.\<close>

definition card_get :: "card \<Rightarrow> string \<Rightarrow> string option" where
  "card_get d k = (case map_of d k of None \<Rightarrow> None | Some v \<Rightarrow> v)"

definition card_get_default :: "card \<Rightarrow> string \<Rightarrow> string \<Rightarrow> string option" where
  "card_get_default d k dflt = (case map_of d k of None \<Rightarrow> Some dflt | Some v \<Rightarrow> v)"

text \<open>\<open>COLOR_MAP.get(card_specific_color_key, default_back_color)\<close>.\<close>

definition COLOR_MAP_get :: "string option \<Rightarrow> color \<Rightarrow> color" where
  "COLOR_MAP_get key dflt =
     (case key of None \<Rightarrow> dflt
      | Some k \<Rightarrow> (case map_of COLOR_MAP k of None \<Rightarrow> dflt | Some c \<Rightarrow> c))"

definition style_verso :: style where
  "style_verso = \<lparr>fontName = ''Helvetica'', fontSize = 125 / 10, leading = 145 / 10,
                  textColor = black\<rparr>"

definition style_recto :: "color \<Rightarrow> style" where
  "style_recto current_back_color =
     \<lparr>fontName = ''Helvetica'', fontSize = 16, leading = 18,
      textColor = recto_text_color current_back_color\<rparr>"

text \<open>The cell of slot \<open>i\<close> on the front page and on the back page, as \<open>(col, row)\<close>.\<close>

definition recto_cell :: "nat \<Rightarrow> int \<times> int" where
  "recto_cell i = (let row = i div COLS; col = i mod COLS in (int col, int row))"

definition verso_cell :: "nat \<Rightarrow> int \<times> int" where
  "verso_cell i =
     (let row = i div COLS; col = i mod COLS; back_col = int COLS - 1 - int col
      in (back_col, int row))"

text \<open>
  The \<open>try\<close> block that composites the image of card \<open>i\<close>: the result is
  \<open>image_to_draw_path\<close> and the state. When writing the file raises, the file exists
  already (\<open>delete=False\<close>) and its name has not reached \<open>temp_image_files_to_clean\<close>.
\<close>

definition composite_image :: "env \<Rightarrow> nat \<Rightarrow> pdf_state \<Rightarrow> nat option \<times> pdf_state" where
  "composite_image e i st =
     (case composite e i of
        CompositeRaises \<Rightarrow> (None, emit [StError] st)
      | SaveRaises \<Rightarrow> (None, emit [TempFileCreated i, StError] st)
      | Composited \<Rightarrow>
          (Some i,
           (emit [TempFileCreated i] st)
             \<lparr>temp_image_files_to_clean := temp_image_files_to_clean st @ [i]\<rparr>))"

text \<open>One turn of the front loop. \<open>cards10[i]\<close> raises \<open>IndexError\<close> out of range.\<close>

definition recto_card ::
    "env \<Rightarrow> Grid \<Rightarrow> card list \<Rightarrow> color \<Rightarrow> bool \<Rightarrow> nat \<Rightarrow> pdf_state
     \<Rightarrow> py_error option \<times> pdf_state" where
  "recto_card e grid deck default_back_color original_pil_image i st =
     (let (col, row) = recto_cell i;
          (x, y) = card_xy grid col row
      in if \<not> i < length deck then (Some IndexError, st)
         else
          (let card_specific_color_key = card_get (deck ! i) ''card_color_key'';
               current_back_color = COLOR_MAP_get card_specific_color_key default_back_color;
               sty = style_recto current_back_color;
               st = emit [SetFillColor current_back_color,
                          Rect x y (card_w grid) (card_h grid) False True] st;
               (image_to_draw_path, st) =
                  (if original_pil_image then composite_image e i st else (None, st));
               question = card_get_default (deck ! i) ''question'' []
           in case image_to_draw_path of
                None \<Rightarrow>
                  draw_centered_text_in_box e x y (card_w grid) (card_h grid) question sty st
              | Some path \<Rightarrow>
                  (let img_h = card_h grid / 2;
                       img_w = img_h;
                       img_x = x + (card_w grid - img_w) / 2;
                       img_y = y + ELEMENT_SPACING;
                       text_box_h = card_h grid - (3 * ELEMENT_SPACING + img_h);
                       text_box_x = x;
                       text_box_y = img_y + img_h + ELEMENT_SPACING;
                       text_box_w = card_w grid
                   in if \<not> drawImage_ok e path
                      then draw_centered_text_in_box e x y (card_w grid) (card_h grid)
                             question sty (emit [StError] st)
                      else draw_centered_text_in_box e text_box_x text_box_y text_box_w
                             text_box_h question sty
                             (emit [DrawImage path img_x img_y img_w img_h] st))))"

text \<open>One turn of the back loop.\<close>

definition verso_card ::
    "env \<Rightarrow> Grid \<Rightarrow> card list \<Rightarrow> nat \<Rightarrow> pdf_state \<Rightarrow> py_error option \<times> pdf_state" where
  "verso_card e grid deck i st =
     (let (back_col, row) = verso_cell i;
          (x, y) = card_xy grid back_col row
      in if \<not> i < length deck then (Some IndexError, st)
         else draw_centered_text_in_box e x y (card_w grid) (card_h grid)
                (card_get_default (deck ! i) ''texte'' []) style_verso st)"

text \<open>A \<open>for\<close> loop whose body may raise: the exception ends the loop.\<close>

fun for_loop :: "(nat \<Rightarrow> pdf_state \<Rightarrow> py_error option \<times> pdf_state) \<Rightarrow> nat list \<Rightarrow> pdf_state
    \<Rightarrow> py_error option \<times> pdf_state" where
  "for_loop body [] st = (None, st)"
| "for_loop body (i # is) st =
     (case body i st of
        (Some err, st') \<Rightarrow> (Some err, st')
      | (None, st') \<Rightarrow> for_loop body is st')"

text \<open>The last loop of \<open>build_pdf\<close>: an \<open>OSError\<close> of \<open>os.remove\<close> becomes a warning.\<close>

fun cleanup :: "env \<Rightarrow> nat list \<Rightarrow> pdf_state \<Rightarrow> pdf_state" where
  "cleanup e [] st = st"
| "cleanup e (temp_file # fs) st =
     cleanup e fs (emit [if remove_ok e temp_file then OsRemove temp_file
                         else StWarning temp_file] st)"

definition build_pdf ::
    "env \<Rightarrow> card list \<Rightarrow> color \<Rightarrow> upload \<Rightarrow> py_error option \<times> event list" where
  "build_pdf e cards default_back_color uploaded_image_file =
     (let grid = compute_grid;
          deck = cards10 cards;
          st = \<lparr>trace = [], temp_image_files_to_clean = []\<rparr>;
          (original_pil_image, st) =
             (case uploaded_image_file of
                NoUpload \<Rightarrow> (False, st)
              | Unreadable \<Rightarrow> (False, emit [StError] st)
              | Readable \<Rightarrow> (True, st))
      in case for_loop (recto_card e grid deck default_back_color original_pil_image)
                [0..<NB_CARTES] st of
           (Some err, st) \<Rightarrow> (Some err, trace st)
         | (None, st) \<Rightarrow>
             (case for_loop (verso_card e grid deck) [0..<NB_CARTES] (emit [ShowPage] st) of
                (Some err, st) \<Rightarrow> (Some err, trace st)
              | (None, st) \<Rightarrow>
                  (let st = emit [Save] st;
                       st = cleanup e (temp_image_files_to_clean st) st
                   in (None, trace st))))"

section \<open>The button\<close>

text \<open>
  The handler of the button: with no card the error message is shown and \<open>build_pdf\<close>
  is not called; otherwise the document is what \<open>build_pdf\<close> drew, offered for
  download when \<open>build_pdf\<close> returns.
\<close>

datatype outcome =
    Download "event list"
  | Uncaught py_error "event list"
  | NoCards

definition generate_button ::
    "env \<Rightarrow> card list \<Rightarrow> color \<Rightarrow> upload \<Rightarrow> outcome" where
  "generate_button e cards default_back_color uploaded_image_file =
     (if cards \<noteq> []
      then (case build_pdf e cards default_back_color uploaded_image_file of
              (None, tr) \<Rightarrow> Download tr
            | (Some err, tr) \<Rightarrow> Uncaught err tr)
      else NoCards)"

text \<open>
  The events of drawing an outline: \<open>draw_card_border\<close> sets the line width, sets
  the stroke color and draws a rectangle with the stroke on.
\<close>

fun border_event :: "event \<Rightarrow> bool" where
  "border_event (Rect x y w h stroke fill) = stroke"
| "border_event (SetLineWidth w) = True"
| "border_event (SetStrokeColor c) = True"
| "border_event _ = False"

definition no_border :: "pdf_state \<Rightarrow> bool" where
  "no_border st = (\<not> list_ex border_event (trace st))"

section \<open>Sample runs\<close>

text \<open>
  Three settings of the outside world, for the runs evaluated below: every call
  succeeds and a paragraph is one line high; reportlab rejects the markup of an
  unclosed tag (\<open>Paragraph\<close> raises \<open>ValueError\<close>); writing the temporary file of
  card 0 fails.
\<close>

definition env_ok :: env where
  "env_ok = \<lparr>composite = (\<lambda>i. Composited), drawImage_ok = (\<lambda>i. True),
             paragraph_ok = (\<lambda>markup. True), wrap_height = (\<lambda>markup sty w. leading sty),
             remove_ok = (\<lambda>f. True)\<rparr>"

definition env_bad_markup :: env where
  "env_bad_markup = env_ok\<lparr>paragraph_ok := (\<lambda>markup. markup \<noteq> ''<b>x'')\<rparr>"

definition env_save_fails :: env where
  "env_save_fails = env_ok\<lparr>composite := (\<lambda>i. if i = 0 then SaveRaises else Composited)\<rparr>"

section \<open>The specification's own notions\<close>

text \<open>
  The words of the specification for the filename heuristic: a name occurs in the
  filename, letter case ignored, when some contiguous piece of the filename lowercases
  to the name.
\<close>

definition occurs_ci :: "string \<Rightarrow> string \<Rightarrow> bool" where
  "occurs_ci name filename =
     (\<exists>pre mid suf. filename = pre @ mid @ suf \<and> lower mid = name)"

section \<open>Filename heuristic\<close>

lemma occurs_ci_sublist: "occurs_ci name filename = sublist name (lower filename)"
proof
  assume "occurs_ci name filename"
  then obtain pre mid suf where "filename = pre @ mid @ suf" "lower mid = name"
    unfolding occurs_ci_def by blast
  then have "lower filename = lower pre @ name @ lower suf"
    by (simp add: lower_def)
  then show "sublist name (lower filename)"
    unfolding sublist_def by blast
next
  assume "sublist name (lower filename)"
  then obtain ps ss where eq: "map lower_char filename = ps @ (name @ ss)"
    unfolding sublist_def lower_def by blast
  from eq [unfolded map_eq_append_conv]
  obtain pre rest where f1: "filename = pre @ rest"
    and r: "map lower_char rest = name @ ss"
    by metis
  from r [unfolded map_eq_append_conv]
  obtain mid suf where "rest = mid @ suf" "map lower_char mid = name"
    by metis
  with f1 show "occurs_ci name filename"
    unfolding occurs_ci_def lower_def by blast
qed

lemma COLOR_MAP_item_names:
  "COLOR_MAP_item ''bleu'' = Inr (HexColor 0x2D 0x6C 0xDF)"
  "COLOR_MAP_item ''rouge'' = Inr (HexColor 0xD6 0x45 0x41)"
  "COLOR_MAP_item ''rose'' = Inr (HexColor 0xE8 0x5D 0x9E)"
  "COLOR_MAP_item ''vert'' = Inr (HexColor 0x2E 0xCC 0x71)"
  "COLOR_MAP_item ''jaune'' = Inr (HexColor 0xF1 0xC4 0x0F)"
  by (simp_all add: COLOR_MAP_item_def COLOR_MAP_def)

lemma pick_loop_none:
  "\<forall>k \<in> set keys. \<not> sublist k low \<Longrightarrow> pick_loop keys low = pick_loop [] low"
  by (induction keys) simp_all

lemma pick_loop_first:
  assumes "j < length keys" "sublist (keys ! j) low" "\<forall>i<j. \<not> sublist (keys ! i) low"
  shows "pick_loop keys low = pick_loop [keys ! j] (keys ! j)"
  using assms
proof (induction keys arbitrary: j)
  case Nil
  then show ?case by simp
next
  case (Cons k keys)
  show ?case
  proof (cases j)
    case 0
    with Cons.prems show ?thesis by simp
  next
    case (Suc j')
    with Cons.prems have nk: "\<not> sublist k low" by auto
    from Suc Cons.prems have "j' < length keys" "sublist (keys ! j') low"
      "\<forall>i<j'. \<not> sublist (keys ! i) low" by auto
    from Cons.IH [OF this] nk Suc show ?thesis by simp
  qed
qed

lemma length_color_names: "length color_names = 5"
  by (simp add: color_names_def)

lemma all_less_two: "(\<forall>i<2. P i) = (P (0::nat) \<and> P 1)"
  by (auto simp: numeral_2_eq_2 All_less_Suc)

lemma all_less_five: "(\<forall>i<5. P i) = (P (0::nat) \<and> P 1 \<and> P 2 \<and> P 3 \<and> P 4)"
  by (auto simp: eval_nat_numeral All_less_Suc)

lemma pick_loop_single:
  assumes "j < 5"
  shows "pick_loop [color_names ! j] (color_names ! j)
     = Inr (color_names ! j, snd (COLOR_MAP ! j))"
proof -
  from assms have "j = 0 \<or> j = 1 \<or> j = 2 \<or> j = 3 \<or> j = 4" by arith
  moreover have "pick_loop [color_names ! 0] (color_names ! 0)
     = Inr (color_names ! 0, snd (COLOR_MAP ! 0))"
    by (simp add: color_names_def COLOR_MAP_item_names COLOR_MAP_def)
  moreover have "pick_loop [color_names ! 1] (color_names ! 1)
     = Inr (color_names ! 1, snd (COLOR_MAP ! 1))"
    by (simp add: color_names_def COLOR_MAP_item_names COLOR_MAP_def)
  moreover have "pick_loop [color_names ! 2] (color_names ! 2)
     = Inr (color_names ! 2, snd (COLOR_MAP ! 2))"
    by (simp add: color_names_def COLOR_MAP_item_names COLOR_MAP_def)
  moreover have "pick_loop [color_names ! 3] (color_names ! 3)
     = Inr (color_names ! 3, snd (COLOR_MAP ! 3))"
    by (simp add: color_names_def COLOR_MAP_item_names COLOR_MAP_def)
  moreover have "pick_loop [color_names ! 4] (color_names ! 4)
     = Inr (color_names ! 4, snd (COLOR_MAP ! 4))"
    by (simp add: color_names_def COLOR_MAP_item_names COLOR_MAP_def)
  ultimately show ?thesis by blast
qed

text \<open>
  C9. The default back color of a batch comes from the filename: a name counts as
  present when it occurs in the filename with letter case ignored; of the names present,
  the one that comes first in the order bleu, rouge, rose, vert, jaune is returned with its
  color, wherever in the filename the names stand; when none is present the result is
  bleu. The function never raises.
\<close>

theorem pick_color_first_match:
  "((\<forall>j<5. \<not> occurs_ci (color_names ! j) filename) \<longrightarrow>
      pick_color_from_filename filename = Inr (''bleu'', HexColor 0x2D 0x6C 0xDF))
   \<and> (j < 5 \<and> occurs_ci (color_names ! j) filename
        \<and> (\<forall>i<j. \<not> occurs_ci (color_names ! i) filename) \<longrightarrow>
      pick_color_from_filename filename = Inr (color_names ! j, snd (COLOR_MAP ! j)))"
proof (intro conjI impI)
  assume "\<forall>j<5. \<not> occurs_ci (color_names ! j) filename"
  then have "\<forall>j<length color_names. \<not> sublist (color_names ! j) (lower filename)"
    unfolding occurs_ci_sublist length_color_names .
  then have "\<forall>k \<in> set color_names. \<not> sublist k (lower filename)"
    by (metis in_set_conv_nth)
  from pick_loop_none [OF this]
  show "pick_color_from_filename filename = Inr (''bleu'', HexColor 0x2D 0x6C 0xDF)"
    by (simp add: pick_color_from_filename_def COLOR_MAP_item_names)
next
  assume a: "j < 5 \<and> occurs_ci (color_names ! j) filename
    \<and> (\<forall>i<j. \<not> occurs_ci (color_names ! i) filename)"
  then have "j < length color_names" "sublist (color_names ! j) (lower filename)"
    "\<forall>i<j. \<not> sublist (color_names ! i) (lower filename)"
    unfolding occurs_ci_sublist length_color_names by blast+
  from pick_loop_first [OF this]
  have p: "pick_color_from_filename filename
     = pick_loop [color_names ! j] (color_names ! j)"
    by (simp add: pick_color_from_filename_def)
  from a have "j < 5" by blast
  then have "pick_loop [color_names ! j] (color_names ! j)
     = Inr (color_names ! j, snd (COLOR_MAP ! j))"
    by (rule pick_loop_single)
  with p show "pick_color_from_filename filename
     = Inr (color_names ! j, snd (COLOR_MAP ! j))" by simp
qed

theorem pick_color_first_match_witness:
  "pick_color_from_filename ''Cartes_ROUGE_bleu.csv'' = Inr (''bleu'', HexColor 0x2D 0x6C 0xDF)
   \<and> pick_color_from_filename ''rose-Vert.csv'' = Inr (''rose'', HexColor 0xE8 0x5D 0x9E)
   \<and> pick_color_from_filename ''deck.csv'' = Inr (''bleu'', HexColor 0x2D 0x6C 0xDF)"
proof -
  have o0: "occurs_ci (color_names ! 0) ''Cartes_ROUGE_bleu.csv''"
    unfolding occurs_ci_sublist by code_simp
  have o2: "occurs_ci (color_names ! 2) ''rose-Vert.csv''"
    unfolding occurs_ci_sublist by code_simp
  have n2: "\<forall>i<2. \<not> occurs_ci (color_names ! i) ''rose-Vert.csv''"
    unfolding occurs_ci_sublist all_less_two by code_simp
  have n5: "\<forall>j<5. \<not> occurs_ci (color_names ! j) ''deck.csv''"
    unfolding occurs_ci_sublist all_less_five by code_simp
  have "pick_color_from_filename ''Cartes_ROUGE_bleu.csv''
      = Inr (color_names ! 0, snd (COLOR_MAP ! 0))"
    using pick_color_first_match [of "''Cartes_ROUGE_bleu.csv''" 0] o0 by simp
  moreover have "pick_color_from_filename ''rose-Vert.csv''
      = Inr (color_names ! 2, snd (COLOR_MAP ! 2))"
    using pick_color_first_match [of "''rose-Vert.csv''" 2] o2 n2 by simp
  moreover have "pick_color_from_filename ''deck.csv'' = Inr (''bleu'', HexColor 0x2D 0x6C 0xDF)"
    using pick_color_first_match [of "''deck.csv''" 0] n5 by blast
  ultimately show ?thesis
    by (simp add: color_names_def COLOR_MAP_def)
qed

section \<open>The deck\<close>

text \<open>
  C1. Whatever the number of parsed cards, the deck that \<open>build_pdf\<close> draws has exactly
  10 entries: the first \<open>min n 10\<close> are the parsed cards in their order, the others are
  the blank card, whose question and back text are empty and which has no color key;
  cards after the tenth are dropped.
\<close>

theorem deck_has_ten_cards:
  "length (cards10 cards) = 10
   \<and> take (min (length cards) 10) (cards10 cards) = take 10 cards
   \<and> drop (min (length cards) 10) (cards10 cards)
       = replicate (10 - min (length cards) 10) blank_card
   \<and> card_get_default blank_card ''question'' [] = Some []
   \<and> card_get_default blank_card ''texte'' [] = Some []
   \<and> card_get blank_card ''card_color_key'' = None"
proof -
  have l: "length (cards10 cards) = 10"
    by (simp add: cards10_def NB_CARTES_def)
  have t: "take (min (length cards) 10) (cards10 cards) = take 10 cards"
    by (auto simp: cards10_def NB_CARTES_def min_def)
  have d: "drop (min (length cards) 10) (cards10 cards)
       = replicate (10 - min (length cards) 10) blank_card"
    by (simp add: cards10_def NB_CARTES_def drop_take min_def)
  have b: "card_get_default blank_card ''question'' [] = Some []
     \<and> card_get_default blank_card ''texte'' [] = Some []
     \<and> card_get blank_card ''card_color_key'' = None"
    by (simp add: card_get_default_def card_get_def blank_card_def)
  from l t d b show ?thesis by blast
qed

section \<open>Front and back cells\<close>



section \<open>The color tag of a question\<close>

text \<open>The three examples of the specification, and a tag in upper case after a closed parenthesis.\<close>

lemma color_tag_examples:
  "extract_color ''Capital of France (rouge)'' = Inr (Some ''rouge'', ''Capital of France'')"
  "extract_color ''Capital of France'' = Inr (None, ''Capital of France'')"
  "extract_color ''Capital of France (violet)'' = Inr (None, ''Capital of France (violet)'')"
  "extract_color ''Capital (of) France  ( Rouge )'' = Inr (Some ''rouge'', ''Capital (of) France'')"
  by code_simp+

text \<open>
  C4 fails on the code. The question \<open>Smiley :( (rouge)\<close> ends with the group
  \<open>(rouge)\<close>, whose content is a color name, yet no color key is set and the text
  is kept whole: the search starts at the first opening parenthesis from which the
  pattern matches, and the class \<open>[^)]\<close> lets the second one into the group, whose
  content is then \<open> (rouge\<close>.
\<close>

theorem color_tag_after_open_paren:
  "extract_color ''Smiley :( (rouge)'' = Inr (None, ''Smiley :( (rouge)'')"
  by code_simp

section \<open>Text color of the front face\<close>




section \<open>No card, no document\<close>

lemma cards_loop_blank:
  "\<forall>r \<in> set rows. blank_row r \<Longrightarrow> cards_loop f rows out = Inr out"
  by (induction rows arbitrary: out) simp_all

text \<open>
  C6. When parsing yields no card, the button shows the error and \<open>build_pdf\<close> is not
  called: nothing is drawn and no document is offered. Parsing yields no card for an
  empty file and for a file whose first row is a header and whose other rows, if any,
  are blank.
\<close>

theorem no_cards_no_document:
  "generate_button e [] default_back_color uploaded_image_file = NoCards
   \<and> read_cards_from_rows [] = Inr []
   \<and> (has_header (map normalize_header first) \<and> (\<forall>r \<in> set rest. blank_row r)
        \<longrightarrow> read_cards_from_rows (first # rest) = Inr [])"
  by (simp add: generate_button_def read_cards_from_rows_def cards_loop_blank)

theorem no_cards_no_document_witness:
  "read_cards_from_rows [[''Question'', '' Reponse''], [[], ''  '']] = Inr []
   \<and> generate_button env_ok [] (HexColor 0x2D 0x6C 0xDF) Readable = NoCards"
proof -
  have h: "has_header (map normalize_header [''Question'', '' Reponse''])"
    by code_simp
  have b: "\<forall>r \<in> set [[[], ''  '']]. blank_row r"
    by code_simp
  from h b no_cards_no_document [of env_ok "HexColor 0x2D 0x6C 0xDF" Readable
      "[''Question'', '' Reponse'']" "[[[], ''  '']]"]
  show ?thesis by blast
qed
section \<open>Cell borders\<close>

text \<open>
  No step of \<open>build_pdf\<close> draws an outline: the only rectangle is the fill of a front
  cell, drawn with \<open>stroke=0\<close>, and \<open>draw_card_border\<close> is never called.
\<close>

lemma no_border_emit:
  "no_border st \<Longrightarrow> \<not> list_ex border_event es \<Longrightarrow> no_border (emit es st)"
  by (auto simp: no_border_def emit_def list_ex_iff)

lemma no_border_draw_text:
  "no_border st \<Longrightarrow> no_border (snd (draw_centered_text_in_box e x y w h text sty st))"
  by (simp add: draw_centered_text_in_box_def Let_def no_border_emit)

lemma no_border_composite:
  "composite_image e i st = (p, st') \<Longrightarrow> no_border st \<Longrightarrow> no_border st'"
  by (cases "composite e i")
     (auto simp: composite_image_def no_border_def emit_def list_ex_iff)

lemma no_border_recto:
  assumes "no_border st"
  shows "no_border (snd (recto_card e grid deck d img i st))"
proof -
  obtain col row where c: "recto_cell i = (col, row)" by (cases "recto_cell i")
  obtain x y where xy: "card_xy grid col row = (x, y)" by (cases "card_xy grid col row")
  define st1 where "st1 = emit [SetFillColor (COLOR_MAP_get (card_get (deck ! i) ''card_color_key'') d),
             Rect x y (card_w grid) (card_h grid) False True] st"
  have n1: "no_border st1"
    unfolding st1_def using assms by (simp add: no_border_emit)
  obtain p st2 where cs: "(if img then composite_image e i st1 else (None, st1)) = (p, st2)"
    by (cases "if img then composite_image e i st1 else (None, st1)")
  have n2: "no_border st2"
    using cs n1 by (auto split: if_splits dest: no_border_composite)
  show ?thesis
    using assms n2 cs [unfolded st1_def]
    by (auto simp: recto_card_def Let_def c xy no_border_draw_text no_border_emit
        split: option.splits)
qed

lemma no_border_verso:
  "no_border st \<Longrightarrow> no_border (snd (verso_card e grid deck i st))"
  unfolding verso_card_def Let_def
  by (auto split: prod.splits simp: no_border_draw_text)

lemma no_border_for_loop:
  assumes "\<And>i st. no_border st \<Longrightarrow> no_border (snd (body i st))"
  shows "no_border st \<Longrightarrow> no_border (snd (for_loop body is st))"
proof (induction "is" arbitrary: st)
  case Nil
  then show ?case by simp
next
  case (Cons i "is")
  obtain r st' where b: "body i st = (r, st')" by (cases "body i st")
  from assms [OF Cons.prems, of i] b have n: "no_border st'" by simp
  show ?case
  proof (cases r)
    case None
    with b Cons.IH [OF n] show ?thesis by simp
  next
    case (Some err)
    with b n show ?thesis by simp
  qed
qed

lemma no_border_cleanup:
  "no_border st \<Longrightarrow> no_border (cleanup e fs st)"
  by (induction fs arbitrary: st) (simp_all add: no_border_emit)

lemma build_pdf_no_border:
  "\<not> list_ex border_event (snd (build_pdf e cards d u))"
proof -
  define st0 where "st0 = \<lparr>trace = [], temp_image_files_to_clean = []\<rparr>"
  define st1 where "st1 = (case u of NoUpload \<Rightarrow> (False, st0) | Unreadable \<Rightarrow> (False, emit [StError] st0)
     | Readable \<Rightarrow> (True, st0))"
  have n0: "no_border st0" by (simp add: st0_def no_border_def)
  have n1: "no_border (snd st1)"
    unfolding st1_def using n0 by (cases u) (simp_all add: no_border_emit)
  obtain r2 st2 where l1: "for_loop (recto_card e compute_grid (cards10 cards) d (fst st1))
      [0..<NB_CARTES] (snd st1) = (r2, st2)"
    by (cases "for_loop (recto_card e compute_grid (cards10 cards) d (fst st1))
      [0..<NB_CARTES] (snd st1)")
  have n2: "no_border st2"
    using no_border_for_loop [of "recto_card e compute_grid (cards10 cards) d (fst st1)"
        "snd st1" "[0..<NB_CARTES]"] n1 l1
    by (simp add: no_border_recto)
  obtain r3 st3 where l2: "for_loop (verso_card e compute_grid (cards10 cards))
      [0..<NB_CARTES] (emit [ShowPage] st2) = (r3, st3)"
    by (cases "for_loop (verso_card e compute_grid (cards10 cards))
      [0..<NB_CARTES] (emit [ShowPage] st2)")
  have n3: "no_border st3"
    using no_border_for_loop [of "verso_card e compute_grid (cards10 cards)"
        "emit [ShowPage] st2" "[0..<NB_CARTES]"] n2 l2
    by (simp add: no_border_verso no_border_emit)
  have n4: "no_border (cleanup e (temp_image_files_to_clean (emit [Save] st3)) (emit [Save] st3))"
    using n3 by (simp add: no_border_cleanup no_border_emit)
  obtain b s where s1: "st1 = (b, s)" by (cases st1)
  show ?thesis
    unfolding build_pdf_def Let_def st0_def [symmetric] st1_def [symmetric]
    using l1 l2 n2 n3 n4 s1
    by (auto simp: no_border_def split: option.splits)
qed

text \<open>
  The claim C7 as written asks for an outline around every cell. In the run of one
  card without image, with every call succeeding, no event of an outline occurs:
  the line width and the stroke color are never set, no rectangle is stroked.
\<close>

theorem no_border_in_sample_run:
  "list_ex border_event
     (snd (build_pdf env_ok [make_card ''Q'' ''A'' None] (HexColor 0x2D 0x6C 0xDF) NoUpload))
   = False"
  using build_pdf_no_border [of env_ok "[make_card ''Q'' ''A'' None]"
      "HexColor 0x2D 0x6C 0xDF" NoUpload]
  by simp

text \<open>
  C7, amended. On neither page is a cell outlined: for every deck, default color,
  image and outcome of the outside calls, \<open>build_pdf\<close> sets no line width and no stroke
  color and strokes no rectangle. The border helper of the source (width 1, light
  gray) stays unused.
\<close>

theorem no_cell_is_outlined:
  "\<not> list_ex border_event (snd (build_pdf e cards default_back_color uploaded_image_file))"
  by (rule build_pdf_no_border)
end
